theory Spec2Isabelle
  imports Complex_Main "HOL-Library.AList"
begin

section \<open>BillBuddy: the balance computation engine of \<^verbatim>\<open>back_end/main.py\<close>\<close>

text \<open>
  The development embeds the split calculator, the balance aggregator, the write-time
  validation of the expense endpoints and the repair sweep of \<^verbatim>\<open>back_end/main.py\<close>,
  together with the record classes of \<^verbatim>\<open>back_end/models.py\<close>.

  Conventions of the embedding:
  \<^item> Amounts are Python floats in the source. They are modelled as exact rationals, and
    \<^verbatim>\<open>round(x, 2)\<close> as rounding of the exact value to two decimals, ties to even. The
    binary representation error of floats is therefore not part of the model; the concrete
    inputs used below stay away from rounding ties.
  \<^item> A Python \<^verbatim>\<open>dict\<close> is an association list with distinct keys in insertion order;
    assignment \<^verbatim>\<open>d[k] = v\<close> is \<^const>\<open>AList.update\<close> (overwrite in place, or append).
  \<^item> An exception that ends a request is a value of type \<open>error\<close>; a handler that
    lets the request fail returns the error together with the store as it is at that
    moment. The \<^verbatim>\<open>ValidationError\<close> and \<^verbatim>\<open>ValueError\<close> the source catches inside a
    loop are the branches that skip the record.
  \<^item> E-mail addresses are strings; the syntax check of pydantic's \<^verbatim>\<open>EmailStr\<close> is not
    modelled, all strings are taken to be well-formed addresses.
  \<^item> Reads of the store succeed and return the documents in the order of the collection;
    an insert can fail, as the fault schedule of the store says. Documents have the
    fields the endpoints write.
\<close>

subsection \<open>Numbers and dictionaries\<close>

type_synonym email = string

type_synonym 'v dict = "(string \<times> 'v) list"

datatype error =
    HTTPException nat string
  | ZeroDivisionError

definition round_half_even :: "rat \<Rightarrow> int" where
  "round_half_even x =
     (let f = \<lfloor>x\<rfloor>; d = x - of_int f
      in if d < 1 / 2 then f
         else if 1 / 2 < d then f + 1
         else if even f then f else f + 1)"

text \<open>\<^verbatim>\<open>round(x, n)\<close> of Python on an exact value.\<close>

definition py_round :: "rat \<Rightarrow> nat \<Rightarrow> rat" where
  "py_round x n = of_int (round_half_even (x * 10 ^ n)) / 10 ^ n"

definition keys :: "'v dict \<Rightarrow> string list" where
  "keys d = map fst d"

definition values_of :: "'v dict \<Rightarrow> 'v list" where
  "values_of d = map snd d"

text \<open>\<^verbatim>\<open>d.get(k, default)\<close>.\<close>

definition dict_get :: "'v dict \<Rightarrow> string \<Rightarrow> 'v \<Rightarrow> 'v" where
  "dict_get d k dflt = (case map_of d k of None \<Rightarrow> dflt | Some v \<Rightarrow> v)"

text \<open>The comprehension \<^verbatim>\<open>{p: share for p in participants}\<close>.\<close>

definition dict_from_keys :: "string list \<Rightarrow> 'v \<Rightarrow> 'v dict" where
  "dict_from_keys ks v = fold (\<lambda>p d. AList.update p v d) ks []"

subsection \<open>The request model \<^verbatim>\<open>Expense\<close> of \<^verbatim>\<open>models.py\<close>\<close>

record Expense =
  description :: string
  amount :: rat
  participants :: "email list"
  paid_by :: email
  split_method :: string
  split_amounts :: "rat dict option"
  created_at :: "nat option"
  group_id :: "string option"

text \<open>
  The field validators of the class and the \<^verbatim>\<open>Literal["equal", "custom"]\<close> type of
  \<^verbatim>\<open>split_method\<close>; constructing an \<^verbatim>\<open>Expense\<close> raises \<^verbatim>\<open>ValidationError\<close> when
  this is false.
\<close>

definition Expense_valid :: "Expense \<Rightarrow> bool" where
  "Expense_valid e \<longleftrightarrow>
     0 < amount e \<and> participants e \<noteq> [] \<and>
     (split_method e = ''equal'' \<or> split_method e = ''custom'')"

subsection \<open>Split calculator\<close>

text \<open>\<^verbatim>\<open>share = round(amount / len(participants), 2); splits = {p: share for p in participants}\<close>\<close>

definition equal_split :: "rat \<Rightarrow> email list \<Rightarrow> error + rat dict" where
  "equal_split amt ps =
     (if length ps = 0 then Inl ZeroDivisionError
      else Inr (dict_from_keys ps (py_round (amt / of_nat (length ps)) 2)))"

definition calculate_split :: "Expense \<Rightarrow> error + rat dict" where
  "calculate_split expense =
     (if split_method expense = ''equal'' then
        equal_split (amount expense) (participants expense)
      else if split_method expense = ''custom'' then
        (case split_amounts expense of
           None \<Rightarrow> equal_split (amount expense) (participants expense)
         | Some sa \<Rightarrow>
             if sa = [] \<or> \<not> (\<forall>p \<in> set (participants expense). p \<in> set (keys sa)) then
               equal_split (amount expense) (participants expense)
             else if py_round (sum_list (values_of sa)) 2 \<noteq> py_round (amount expense) 2 then
               equal_split (amount expense) (participants expense)
             else Inr sa)
      else equal_split (amount expense) (participants expense))"

definition calculate_user_balance :: "rat dict \<Rightarrow> email \<Rightarrow> email \<Rightarrow> rat dict" where
  "calculate_user_balance splits paid current_user_email =
     (if current_user_email = paid then
        fold (\<lambda>(p, amt) balances.
                if p \<noteq> current_user_email then AList.update p amt balances else balances)
             splits []
      else
        (case map_of splits current_user_email of
           Some owed \<Rightarrow> AList.update paid (- owed) []
         | None \<Rightarrow> []))"

subsection \<open>The document store\<close>

text \<open>
  An \<^verbatim>\<open>ObjectId\<close> is a number; the \<^verbatim>\<open>_id\<close> of a document is an \<^verbatim>\<open>ObjectId\<close> the
  driver generated. The constructor \<^verbatim>\<open>ObjectId(s)\<close> of the driver accepts
  exactly the strings of 24 hexadecimal digits; \<open>None\<close> stands for the exception it
  raises on any other string, which the handlers of the source catch as \<^verbatim>\<open>ValueError\<close>.
\<close>

type_synonym oid = nat

definition hex_digit :: "char \<Rightarrow> nat option" where
  "hex_digit c =
     (let n = (of_char c :: nat)
      in if 48 \<le> n \<and> n \<le> 57 then Some (n - 48)
         else if 97 \<le> n \<and> n \<le> 102 then Some (n - 87)
         else if 65 \<le> n \<and> n \<le> 70 then Some (n - 55)
         else None)"

fun hex_value :: "nat \<Rightarrow> string \<Rightarrow> nat option" where
  "hex_value acc [] = Some acc"
| "hex_value acc (c # cs) =
     (case hex_digit c of None \<Rightarrow> None | Some d \<Rightarrow> hex_value (16 * acc + d) cs)"

definition ObjectId :: "string \<Rightarrow> oid option" where
  "ObjectId s = (if length s = 24 then hex_value 0 s else None)"

text \<open>
  A stored \<^verbatim>\<open>created_at\<close> is a datetime or a string. A string is represented by what
  \<^verbatim>\<open>datetime.fromisoformat\<close> makes of it: \<open>IsoString None\<close> is a string the parser
  rejects with \<^verbatim>\<open>ValueError\<close>.
\<close>

datatype stored_time = Datetime nat | IsoString "nat option"

definition parse_created_at :: "stored_time \<Rightarrow> nat option" where
  "parse_created_at t = (case t of Datetime d \<Rightarrow> Some d | IsoString r \<Rightarrow> r)"

record user_doc =
  user_email :: email
  user_name :: string
  hashed_password :: string

record group_doc =
  grp_id :: oid
  grp_name :: string
  grp_members :: "email list"
  grp_created_by :: email

text \<open>
  An expense document, with the fields \<^verbatim>\<open>add_expense\<close> writes. The fields read with
  \<^verbatim>\<open>.get\<close> in the source may be absent.
\<close>

record expense_doc =
  exp_id :: oid
  exp_description :: string
  exp_amount :: rat
  exp_participants :: "email list"
  exp_paid_by :: email
  exp_split_method :: "string option"
  exp_splits :: "rat dict option"
  exp_created_at :: stored_time
  exp_group_id :: "string option"
  exp_unregistered :: "email list"

record payment_doc =
  pay_id :: oid
  pay_amount :: rat
  payer :: email
  payee :: email
  pay_description :: string
  pay_created_at :: stored_time
  pay_group_id :: "string option"

text \<open>
  The four collections. \<open>write_faults\<close> is the schedule of the coming insert
  operations: \<open>True\<close> is an insert on which the driver raises \<^verbatim>\<open>PyMongoError\<close>; the
  empty schedule is a store that accepts every insert.
\<close>

record store =
  users :: "user_doc list"
  expenses :: "expense_doc list"
  groups :: "group_doc list"
  payments :: "payment_doc list"
  write_faults :: "bool list"

definition find_user :: "store \<Rightarrow> email \<Rightarrow> user_doc option" where
  "find_user s e = find (\<lambda>u. user_email u = e) (users s)"

definition find_group :: "store \<Rightarrow> oid \<Rightarrow> group_doc option" where
  "find_group s i = find (\<lambda>g. grp_id g = i) (groups s)"

definition find_expense :: "store \<Rightarrow> oid \<Rightarrow> expense_doc option" where
  "find_expense s i = find (\<lambda>d. exp_id d = i) (expenses s)"

text \<open>The driver gives a new document an identifier no stored expense has.\<close>

definition new_oid :: "store \<Rightarrow> oid" where
  "new_oid s = Suc (fold max (map exp_id (expenses s)) 0)"

text \<open>
  \<^verbatim>\<open>expenses_collection.insert_one\<close>: \<open>None\<close> is \<^verbatim>\<open>PyMongoError\<close>; the outcome is
  the head of the fault schedule, which the operation consumes.
\<close>

definition insert_expense :: "store \<Rightarrow> expense_doc \<Rightarrow> store \<times> oid option" where
  "insert_expense s d =
     (case write_faults s of
        True # fs \<Rightarrow> (s\<lparr>write_faults := fs\<rparr>, None)
      | _ \<Rightarrow>
          (let i = new_oid s
           in (s\<lparr>expenses := expenses s @ [d\<lparr>exp_id := i\<rparr>], write_faults := tl (write_faults s)\<rparr>,
               Some i)))"

text \<open>\<^verbatim>\<open>update_one({"_id": i}, {"$set": ...})\<close>: the first document with that identifier.\<close>

fun update_one :: "expense_doc list \<Rightarrow> oid \<Rightarrow> (expense_doc \<Rightarrow> expense_doc) \<Rightarrow> expense_doc list" where
  "update_one [] i f = []"
| "update_one (d # ds) i f = (if exp_id d = i then f d # ds else d # update_one ds i f)"

subsection \<open>Balance aggregator\<close>

record UserExpense =
  ue_id :: oid
  ue_description :: string
  ue_amount :: rat
  ue_paid_by :: email
  ue_participants :: "email list"
  ue_splits :: "rat dict"
  ue_created_at :: nat
  ue_group_id :: "string option"
  ue_group_name :: string

text \<open>
  The three accumulators of \<^verbatim>\<open>get_user_expenses_by_email\<close>, which are also the
  fields of its response.
\<close>

record user_view =
  expense_list :: "UserExpense list"
  net_balances :: "rat dict"
  group_balances :: "rat dict"

text \<open>
  The \<^verbatim>\<open>Expense(...)\<close> constructed from a stored document; the stored splits are
  taken to reach the field \<^verbatim>\<open>split_amounts\<close>. A missing or empty \<^verbatim>\<open>group_id\<close> is
  \<^verbatim>\<open>None\<close>.
\<close>

definition expense_model :: "expense_doc \<Rightarrow> nat \<Rightarrow> Expense" where
  "expense_model expense created =
     \<lparr>description = exp_description expense,
      amount = exp_amount expense,
      participants = exp_participants expense,
      paid_by = exp_paid_by expense,
      split_method = (case exp_split_method expense of None \<Rightarrow> ''equal'' | Some m \<Rightarrow> m),
      split_amounts = exp_splits expense,
      created_at = Some created,
      group_id = (case exp_group_id expense of
                    None \<Rightarrow> None
                  | Some g \<Rightarrow> if g = [] then None else Some g)\<rparr>"

text \<open>
  \<^verbatim>\<open>for user, amount in user_balances.items(): if user != email:
  net_balances[user] = net_balances.get(user, 0) + (amount if paid_by == email else -amount)\<close>
\<close>

definition add_to_net :: "email \<Rightarrow> email \<Rightarrow> rat dict \<Rightarrow> rat dict \<Rightarrow> rat dict" where
  "add_to_net email paid user_balances nb =
     fold (\<lambda>(user, amt) nb.
             if user \<noteq> email then
               AList.update user (dict_get nb user 0 + (if paid = email then amt else - amt)) nb
             else nb)
          user_balances nb"

text \<open>The same loop on \<^verbatim>\<open>group_balances[group_key]\<close>.\<close>

definition add_to_group :: "email \<Rightarrow> email \<Rightarrow> string \<Rightarrow> rat dict \<Rightarrow> rat dict \<Rightarrow> rat dict" where
  "add_to_group email paid group_key user_balances gb =
     fold (\<lambda>(user, amt) gb.
             if user \<noteq> email then
               AList.update group_key
                 (dict_get gb group_key 0 + (if paid = email then amt else - amt)) gb
             else gb)
          user_balances gb"

text \<open>\<^verbatim>\<open>f"{group_name} ({group_id})"\<close>, the name looked up in the groups collection.\<close>

definition group_name_of :: "store \<Rightarrow> oid \<Rightarrow> string" where
  "group_name_of s i = (case find_group s i of Some g \<Rightarrow> grp_name g | None \<Rightarrow> ''Unknown Group'')"

definition group_key_of :: "string \<Rightarrow> string \<Rightarrow> string" where
  "group_key_of gname gid = gname @ '' ('' @ gid @ '')''"

text \<open>
  The body of the loop over the expenses. A record whose timestamp does not parse, or
  whose \<^verbatim>\<open>Expense\<close> does not validate, is skipped (\<^verbatim>\<open>continue\<close>).
\<close>

definition process_expense :: "store \<Rightarrow> email \<Rightarrow> user_view \<Rightarrow> expense_doc \<Rightarrow> error + user_view" where
  "process_expense s email v expense =
     (case parse_created_at (exp_created_at expense) of
        None \<Rightarrow> Inr v
      | Some created \<Rightarrow>
          (let model = expense_model expense created
           in if \<not> Expense_valid model then Inr v
              else
                (case calculate_split model of
                   Inl e \<Rightarrow> Inl e
                 | Inr splits \<Rightarrow>
                     (let user_balances = calculate_user_balance splits (exp_paid_by expense) email;
                          (group_name, gb) =
                            (case group_id model of
                               None \<Rightarrow> (None, group_balances v)
                             | Some gid \<Rightarrow>
                                 (case ObjectId gid of
                                    None \<Rightarrow> (Some ''Invalid Group'', group_balances v)
                                  | Some i \<Rightarrow>
                                      (Some (group_name_of s i),
                                       add_to_group email (exp_paid_by expense)
                                         (group_key_of (group_name_of s i) gid)
                                         user_balances (group_balances v))));
                          nb = add_to_net email (exp_paid_by expense) user_balances (net_balances v);
                          entry =
                            \<lparr>ue_id = exp_id expense,
                             ue_description = exp_description expense,
                             ue_amount = exp_amount expense,
                             ue_paid_by = exp_paid_by expense,
                             ue_participants = exp_participants expense,
                             ue_splits = splits,
                             ue_created_at = created,
                             ue_group_id = group_id model,
                             ue_group_name =
                               (case group_name of
                                  None \<Rightarrow> ''Single''
                                | Some n \<Rightarrow> if n = [] then ''Single'' else n)\<rparr>
                      in Inr \<lparr>expense_list = expense_list v @ [entry],
                              net_balances = nb,
                              group_balances = gb\<rparr>))))"

fun process_expenses :: "store \<Rightarrow> email \<Rightarrow> user_view \<Rightarrow> expense_doc list \<Rightarrow> error + user_view" where
  "process_expenses s email v [] = Inr v"
| "process_expenses s email v (expense # rest) =
     (case process_expense s email v expense of
        Inl e \<Rightarrow> Inl e
      | Inr v' \<Rightarrow> process_expenses s email v' rest)"

text \<open>The body of the loop over the payments.\<close>

definition process_payment :: "store \<Rightarrow> email \<Rightarrow> user_view \<Rightarrow> payment_doc \<Rightarrow> user_view" where
  "process_payment s email v payment =
     (case parse_created_at (pay_created_at payment) of
        None \<Rightarrow> v
      | Some created \<Rightarrow>
          (let amt = pay_amount payment;
               gid_opt = (case pay_group_id payment of
                            None \<Rightarrow> None
                          | Some g \<Rightarrow> if g = [] then None else Some g);
               gb =
                 (case gid_opt of
                    None \<Rightarrow> group_balances v
                  | Some gid \<Rightarrow>
                      (case ObjectId gid of
                         None \<Rightarrow> group_balances v
                       | Some i \<Rightarrow>
                           (let group_key = group_key_of (group_name_of s i) gid
                            in if payer payment = email then
                                 AList.update group_key
                                   (dict_get (group_balances v) group_key 0 - amt) (group_balances v)
                               else if payee payment = email then
                                 AList.update group_key
                                   (dict_get (group_balances v) group_key 0 + amt) (group_balances v)
                               else group_balances v)));
               nb =
                 (if payer payment = email then
                    AList.update (payee payment)
                      (dict_get (net_balances v) (payee payment) 0 - amt) (net_balances v)
                  else if payee payment = email then
                    AList.update (payer payment)
                      (dict_get (net_balances v) (payer payment) 0 + amt) (net_balances v)
                  else net_balances v)
           in v\<lparr>net_balances := nb, group_balances := gb\<rparr>))"

definition process_payments :: "store \<Rightarrow> email \<Rightarrow> user_view \<Rightarrow> payment_doc list \<Rightarrow> user_view" where
  "process_payments s email v ps = fold (\<lambda>payment v. process_payment s email v payment) ps v"

text \<open>\<^verbatim>\<open>expenses_collection.find({"participants": email})\<close>\<close>

definition expenses_of :: "store \<Rightarrow> email \<Rightarrow> expense_doc list" where
  "expenses_of s email = filter (\<lambda>d. email \<in> set (exp_participants d)) (expenses s)"

text \<open>\<^verbatim>\<open>payments_collection.find({"$or": [{"payer": email}, {"payee": email}]})\<close>\<close>

definition payments_of :: "store \<Rightarrow> email \<Rightarrow> payment_doc list" where
  "payments_of s email = filter (\<lambda>p. payer p = email \<or> payee p = email) (payments s)"

definition empty_view :: user_view where
  "empty_view = \<lparr>expense_list = [], net_balances = [], group_balances = []\<rparr>"

text \<open>
  \<^verbatim>\<open>get_user_expenses_by_email\<close> up to its last three lines: the accumulators after the
  two loops, before they are rounded.
\<close>

definition accumulate_view :: "store \<Rightarrow> email \<Rightarrow> error + user_view" where
  "accumulate_view s email =
     (case process_expenses s email empty_view (expenses_of s email) of
        Inl e \<Rightarrow> Inl e
      | Inr v \<Rightarrow> Inr (process_payments s email v (payments_of s email)))"

text \<open>\<^verbatim>\<open>{user: round(amount, 2) for user, amount in d.items()}\<close>\<close>

definition round_values :: "rat dict \<Rightarrow> rat dict" where
  "round_values d = fold (\<lambda>(k, a) r. AList.update k (py_round a 2) r) d []"

definition get_user_expenses_by_email :: "store \<Rightarrow> email \<Rightarrow> error + user_view" where
  "get_user_expenses_by_email s email =
     (case accumulate_view s email of
        Inl e \<Rightarrow> Inl e
      | Inr v \<Rightarrow>
          Inr (v\<lparr>net_balances := round_values (net_balances v),
                 group_balances := round_values (group_balances v)\<rparr>))"

subsection \<open>Write-time validation and the expense endpoints\<close>

text \<open>
  \<^verbatim>\<open>validate_users\<close>: the addresses among the participants and the payer that no user
  document has. The source iterates over a Python set, whose order is not fixed; the
  model takes the order \<^const>\<open>remdups\<close> gives.
\<close>

definition validate_users :: "store \<Rightarrow> email list \<Rightarrow> email \<Rightarrow> email list" where
  "validate_users s ps paid =
     filter (\<lambda>e. find_user s e = None) (remdups (ps @ [paid]))"

definition validate_group_members :: "store \<Rightarrow> string \<Rightarrow> email list \<Rightarrow> email \<Rightarrow> error + group_doc" where
  "validate_group_members s gid ps paid =
     (case ObjectId gid of
        None \<Rightarrow> Inl (HTTPException 400 ''Invalid group_id'')
      | Some i \<Rightarrow>
          (case find_group s i of
             None \<Rightarrow> Inl (HTTPException 400 ''Group not found'')
           | Some g \<Rightarrow>
               if \<not> set (ps @ [paid]) \<subseteq> set (grp_members g) then
                 Inl (HTTPException 400 ''All participants and paid_by must be group members'')
               else Inr g))"

record ExpenseResponse =
  resp_id :: oid
  resp_amount :: rat
  resp_description :: string
  resp_paid_by :: email
  resp_splits :: "rat dict"
  balances_for_current_user :: "rat dict"
  resp_group_id :: "string option"
  resp_group_name :: "string option"

text \<open>
  \<^verbatim>\<open>expense.dict(by_alias=True)\<close> with the fields the handler then sets; the
  identifier is given by the insert. \<open>now\<close> is \<^verbatim>\<open>datetime.utcnow()\<close>.
\<close>

definition expense_document :: "Expense \<Rightarrow> nat \<Rightarrow> email list \<Rightarrow> rat dict \<Rightarrow> string option \<Rightarrow> expense_doc" where
  "expense_document expense now unregistered splits gid =
     \<lparr>exp_id = 0,
      exp_description = description expense,
      exp_amount = amount expense,
      exp_participants = participants expense,
      exp_paid_by = paid_by expense,
      exp_split_method = Some (split_method expense),
      exp_splits = Some splits,
      exp_created_at = Datetime (case created_at expense of None \<Rightarrow> now | Some t \<Rightarrow> t),
      exp_group_id = gid,
      exp_unregistered = unregistered\<rparr>"

text \<open>
  The checks both expense endpoints make on a custom split:
  \<^verbatim>\<open>not expense.split_amounts or set(expense.split_amounts.keys()) != set(expense.participants)\<close>
  and \<^verbatim>\<open>round(sum(expense.split_amounts.values()), 2) != round(expense.amount, 2)\<close>.
\<close>

definition custom_keys_mismatch :: "Expense \<Rightarrow> bool" where
  "custom_keys_mismatch expense \<longleftrightarrow>
     (case split_amounts expense of
        None \<Rightarrow> True
      | Some sa \<Rightarrow> sa = [] \<or> set (keys sa) \<noteq> set (participants expense))"

definition custom_sum_mismatch :: "Expense \<Rightarrow> bool" where
  "custom_sum_mismatch expense \<longleftrightarrow>
     (case split_amounts expense of
        None \<Rightarrow> False
      | Some sa \<Rightarrow> py_round (sum_list (values_of sa)) 2 \<noteq> py_round (amount expense) 2)"


subsection \<open>The batch endpoint \<^verbatim>\<open>POST /group-expense\<close>\<close>

record GroupExpense =
  ge_group_id :: string
  ge_expenses :: "Expense list"

record BatchExpenseResponse =
  inserted :: "oid list"
  details :: "ExpenseResponse list"

text \<open>One pass through the body of the loop over the sub-expenses.\<close>

definition process_group_expense ::
  "nat \<Rightarrow> email \<Rightarrow> string \<Rightarrow> group_doc \<Rightarrow> store \<Rightarrow> Expense \<Rightarrow> (error + ExpenseResponse) \<times> store" where
  "process_group_expense now current_user gid grp s expense =
     (if current_user \<notin> set (participants expense) then
        (Inl (HTTPException 403 ''Current user must be a participant in all expenses''), s)
      else if paid_by expense \<notin> set (participants expense) then
        (Inl (HTTPException 400 ''paid_by must be one of participants''), s)
      else if split_method expense = ''custom'' \<and> custom_keys_mismatch expense then
        (Inl (HTTPException 400 ''split_amounts must include all participants for custom split''), s)
      else if split_method expense = ''custom'' \<and> custom_sum_mismatch expense then
        (Inl (HTTPException 400 ''split_amounts must sum to total amount''), s)
      else
        (let unregistered = validate_users s (participants expense) (paid_by expense)
         in case validate_group_members s gid (participants expense) (paid_by expense) of
              Inl e \<Rightarrow> (Inl e, s)
            | Inr g \<Rightarrow>
                (case calculate_split expense of
                   Inl e \<Rightarrow> (Inl e, s)
                 | Inr splits \<Rightarrow>
                     (case insert_expense s
                             (expense_document expense now unregistered splits (Some gid)) of
                        (s', None) \<Rightarrow> (Inl (HTTPException 500 ''Database insertion failed''), s')
                      | (s', Some i) \<Rightarrow>
                          (case find_expense s' i of
                             None \<Rightarrow>
                               (Inl (HTTPException 500 ''Failed to verify group expense insertion''), s')
                           | Some inserted_expense \<Rightarrow>
                               (Inr \<lparr>resp_id = i,
                                     resp_amount = amount expense,
                                     resp_description = description expense,
                                     resp_paid_by = paid_by expense,
                                     resp_splits = splits,
                                     balances_for_current_user =
                                       calculate_user_balance splits (paid_by expense) current_user,
                                     resp_group_id = Some gid,
                                     resp_group_name = Some (grp_name grp)\<rparr>,
                                s'))))))"

fun group_expense_loop ::
  "nat \<Rightarrow> email \<Rightarrow> string \<Rightarrow> group_doc \<Rightarrow> store \<Rightarrow> ExpenseResponse list \<Rightarrow> Expense list
     \<Rightarrow> (error + BatchExpenseResponse) \<times> store" where
  "group_expense_loop now current_user gid grp s results [] =
     (Inr \<lparr>inserted = map resp_id results, details = results\<rparr>, s)"
| "group_expense_loop now current_user gid grp s results (expense # rest) =
     (case process_group_expense now current_user gid grp s expense of
        (Inl e, s') \<Rightarrow> (Inl e, s')
      | (Inr r, s') \<Rightarrow> group_expense_loop now current_user gid grp s' (results @ [r]) rest)"

definition add_group_expense ::
  "nat \<Rightarrow> store \<Rightarrow> email \<Rightarrow> GroupExpense \<Rightarrow> (error + BatchExpenseResponse) \<times> store" where
  "add_group_expense now s current_user group_expense =
     (case validate_group_members s (ge_group_id group_expense) [] current_user of
        Inl e \<Rightarrow> (Inl e, s)
      | Inr grp \<Rightarrow>
          group_expense_loop now current_user (ge_group_id group_expense) grp s []
            (ge_expenses group_expense))"

text \<open>
  A stored document holds a sub-expense of a batch: it has the fields of the request,
  the group of the batch, and the splits \<^const>\<open>calculate_split\<close> gives the request.
\<close>

definition holds_expense :: "string \<Rightarrow> Expense \<Rightarrow> expense_doc \<Rightarrow> bool" where
  "holds_expense gid e d \<longleftrightarrow>
     exp_description d = description e \<and> exp_amount d = amount e \<and>
     exp_participants d = participants e \<and> exp_paid_by d = paid_by e \<and>
     exp_split_method d = Some (split_method e) \<and> exp_group_id d = Some gid \<and>
     (case exp_splits d of None \<Rightarrow> False | Some sp \<Rightarrow> calculate_split e = Inr sp)"

subsection \<open>The repair sweep \<^verbatim>\<open>POST /fix-expenses\<close>\<close>

text \<open>
  \<^verbatim>\<open>not splits or set(splits.keys()) != set(participants) or
  round(sum(splits.values()), 2) != round(amount, 2)\<close>
\<close>

definition splits_broken :: "expense_doc \<Rightarrow> bool" where
  "splits_broken expense \<longleftrightarrow>
     (case exp_splits expense of
        None \<Rightarrow> True
      | Some splits \<Rightarrow>
          splits = [] \<or> set (keys splits) \<noteq> set (exp_participants expense) \<or>
          py_round (sum_list (values_of splits)) 2 \<noteq> py_round (exp_amount expense) 2)"

text \<open>
  The loop runs over the documents the query returned and rewrites the collection as it
  goes. The result is the number of rewritten documents (the message reports it), or the
  exception that ends the sweep, and the store afterwards.
\<close>

fun fix_expenses_loop :: "expense_doc list \<Rightarrow> store \<Rightarrow> nat \<Rightarrow> (error + nat) \<times> store" where
  "fix_expenses_loop [] s fixed_count = (Inr fixed_count, s)"
| "fix_expenses_loop (expense # rest) s fixed_count =
     (if splits_broken expense then
        (case equal_split (exp_amount expense) (exp_participants expense) of
           Inl e \<Rightarrow> (Inl e, s)
         | Inr new_splits \<Rightarrow>
             fix_expenses_loop rest
               (s\<lparr>expenses :=
                    update_one (expenses s) (exp_id expense)
                      (\<lambda>d. d\<lparr>exp_splits := Some new_splits, exp_split_method := Some ''equal''\<rparr>)\<rparr>)
               (fixed_count + 1))
      else fix_expenses_loop rest s fixed_count)"

definition fix_expenses :: "store \<Rightarrow> (error + nat) \<times> store" where
  "fix_expenses s =
     fix_expenses_loop (filter (\<lambda>d. exp_split_method d = Some ''custom'') (expenses s)) s 0"

subsection \<open>Concrete inputs\<close>

text \<open>The example of the specification: 100 shared by three, paid by the first.\<close>

definition three_way :: Expense where
  "three_way =
     \<lparr>description = ''dinner'', amount = 100,
      participants = [''a@x.io'', ''b@x.io'', ''c@x.io''], paid_by = ''a@x.io'',
      split_method = ''equal'', split_amounts = None, created_at = None, group_id = None\<rparr>"



text \<open>The document \<^verbatim>\<open>add_expense\<close> stores for \<^const>\<open>three_way\<close>, and a store holding it.\<close>

definition three_way_doc :: expense_doc where
  "three_way_doc =
     \<lparr>exp_id = 1, exp_description = ''dinner'', exp_amount = 100,
      exp_participants = [''a@x.io'', ''b@x.io'', ''c@x.io''], exp_paid_by = ''a@x.io'',
      exp_split_method = Some ''equal'',
      exp_splits = Some [(''a@x.io'', 3333 / 100), (''b@x.io'', 3333 / 100), (''c@x.io'', 3333 / 100)],
      exp_created_at = Datetime 0, exp_group_id = None, exp_unregistered = []\<rparr>"

definition dinner_store :: store where
  "dinner_store =
     \<lparr>users = [], expenses = [three_way_doc], groups = [], payments = [], write_faults = []\<rparr>"




text \<open>
  A custom expense as it could be stored before validation existed (the example of the
  specification: 60 and 41 for an amount of 100), a store holding it, and that store
  after the repair sweep.
\<close>

definition legacy_doc :: expense_doc where
  "legacy_doc =
     \<lparr>exp_id = 7, exp_description = ''hotel'', exp_amount = 100,
      exp_participants = [''a@x.io'', ''b@x.io''], exp_paid_by = ''a@x.io'',
      exp_split_method = Some ''custom'',
      exp_splits = Some [(''a@x.io'', 60), (''b@x.io'', 41)],
      exp_created_at = Datetime 3, exp_group_id = None, exp_unregistered = []\<rparr>"

definition legacy_store :: store where
  "legacy_store = dinner_store\<lparr>expenses := [three_way_doc, legacy_doc]\<rparr>"

definition repaired_store :: store where
  "repaired_store =
     dinner_store\<lparr>expenses :=
       [three_way_doc,
        legacy_doc\<lparr>exp_split_method := Some ''equal'',
                    exp_splits := Some [(''a@x.io'', 50), (''b@x.io'', 50)]\<rparr>]\<rparr>"




text \<open>
  A store with a group of the three participants, and sub-expenses for a batch: the
  second names a payer who is no participant.
\<close>

definition trip_gid :: string where
  "trip_gid = ''0000000000000000000000a1''"

definition trip_store :: store where
  "trip_store =
     dinner_store\<lparr>groups :=
       [\<lparr>grp_id = 161, grp_name = ''Trip'',
         grp_members = [''a@x.io'', ''b@x.io'', ''c@x.io''], grp_created_by = ''a@x.io''\<rparr>]\<rparr>"

definition picnic :: Expense where
  "picnic = three_way\<lparr>description := ''picnic''\<rparr>"

definition outsider_paid :: Expense where
  "outsider_paid = three_way\<lparr>description := ''fuel'', paid_by := ''z@x.io''\<rparr>"

text \<open>The same store when its second insert from now on fails.\<close>

definition flaky_trip_store :: store where
  "flaky_trip_store = trip_store\<lparr>write_faults := [False, True]\<rparr>"

section \<open>Properties\<close>

subsection \<open>Dictionaries built by comprehension\<close>

lemma map_of_fold_update:
  "map_of (fold (\<lambda>p d. AList.update p v d) ks d0) k =
     (if k \<in> set ks then Some v else map_of d0 k)"
  by (induction ks arbitrary: d0) (auto simp: update_conv')

lemma keys_fold_update:
  "set (map fst (fold (\<lambda>p d. AList.update p v d) ks d0)) = set ks \<union> set (map fst d0)"
  by (induction ks arbitrary: d0) (auto simp: dom_update)

lemma map_of_dict_from_keys:
  "map_of (dict_from_keys ks v) k = (if k \<in> set ks then Some v else None)"
  by (simp add: dict_from_keys_def map_of_fold_update)

lemma keys_dict_from_keys: "set (keys (dict_from_keys ks v)) = set ks"
  by (simp add: dict_from_keys_def keys_def keys_fold_update del: set_map)





subsection \<open>Rounding\<close>



subsection \<open>The equal split\<close>

text \<open>
  Claim C9. For an expense with method \<^verbatim>\<open>equal\<close> and a non-empty list of \<open>N\<close>
  participants, \<^const>\<open>calculate_split\<close> returns a mapping whose key set is the set of
  participants and which gives every participant the share \<^verbatim>\<open>round(amount / N, 2)\<close>.
\<close>

theorem equal_split_shares:
  assumes "split_method e = ''equal''" and "participants e \<noteq> []"
  shows "\<exists>splits. calculate_split e = Inr splits \<and>
           set (keys splits) = set (participants e) \<and>
           (\<forall>p \<in> set (participants e).
              map_of splits p = Some (py_round (amount e / of_nat (length (participants e))) 2))"
  using assms
  by (simp add: calculate_split_def equal_split_def keys_dict_from_keys map_of_dict_from_keys)

theorem equal_split_shares_witness:
  "split_method three_way = ''equal'' \<and> participants three_way \<noteq> [] \<and>
   (\<exists>splits. calculate_split three_way = Inr splits \<and>
      set (keys splits) = {''a@x.io'', ''b@x.io'', ''c@x.io''} \<and>
      map_of splits ''b@x.io'' = Some (3333 / 100))"
proof -
  have m: "split_method three_way = ''equal''" and ne: "participants three_way \<noteq> []"
    by (simp_all add: three_way_def)
  have share: "py_round (amount three_way / of_nat (length (participants three_way))) 2 = 3333 / 100"
    by code_simp
  have ps: "set (participants three_way) = {''a@x.io'', ''b@x.io'', ''c@x.io''}"
    by (simp add: three_way_def)
  from equal_split_shares[OF m ne] obtain splits where
    "calculate_split three_way = Inr splits"
    "set (keys splits) = set (participants three_way)"
    "\<forall>p \<in> set (participants three_way).
       map_of splits p = Some (py_round (amount three_way / of_nat (length (participants three_way))) 2)"
    by blast
  then have "calculate_split three_way = Inr splits \<and>
      set (keys splits) = {''a@x.io'', ''b@x.io'', ''c@x.io''} \<and>
      map_of splits ''b@x.io'' = Some (3333 / 100)"
    unfolding share ps by simp
  then show ?thesis using m ne by blast
qed




subsection \<open>The custom split at read time\<close>

text \<open>
  The rule \<^const>\<open>calculate_split\<close> follows for the method \<^verbatim>\<open>custom\<close>: the stored
  splits are used when they are present and not empty, every participant is one of
  their keys, and the rounded sums agree.
\<close>

lemma calculate_split_custom_rule:
  assumes "split_method e = ''custom''"
  shows "calculate_split e =
     (case split_amounts e of
        Some sa \<Rightarrow>
          if sa \<noteq> [] \<and> set (participants e) \<subseteq> set (keys sa) \<and>
             py_round (sum_list (values_of sa)) 2 = py_round (amount e) 2
          then Inr sa
          else equal_split (amount e) (participants e)
      | None \<Rightarrow> equal_split (amount e) (participants e))"
  using assms by (auto simp: calculate_split_def split: option.splits)



subsection \<open>The sign of a debtor's balance\<close>

text \<open>
  What the loop of the aggregation adds for a viewer who is a participant and not the
  payer: the viewer's own share, with a positive sign, under the payer's key.
\<close>

lemma debtor_contribution:
  assumes "email \<noteq> paid" and "map_of splits email = Some owed"
  shows "add_to_net email paid (calculate_user_balance splits paid email) nb =
           AList.update paid (dict_get nb paid 0 + owed) nb"
  using assms by (simp add: add_to_net_def calculate_user_balance_def)

text \<open>
  Claim C1 says the view of a participant who is not the payer holds minus that
  participant's share under the payer's key. At the example of the specification,
  \<^const>\<open>calculate_user_balance\<close> gives the viewer \<^verbatim>\<open>b@x.io\<close> the entry \<open>-33.33\<close>
  for the payer, and the loop of \<^const>\<open>get_user_expenses_by_email\<close> negates it again:
  the view holds \<open>+33.33\<close>.
\<close>

theorem debtor_view_sign:
  "calculate_user_balance
     [(''a@x.io'', 3333 / 100), (''b@x.io'', 3333 / 100), (''c@x.io'', 3333 / 100)]
     ''a@x.io'' ''b@x.io'' = [(''a@x.io'', - (3333 / 100))] \<and>
   map_sum id net_balances (get_user_expenses_by_email dinner_store ''b@x.io'')
     = Inr [(''a@x.io'', 3333 / 100)]"
  by code_simp

theorem debtor_view_sign_witness:
  "map_sum id net_balances (get_user_expenses_by_email dinner_store ''b@x.io'')
     \<noteq> Inr [(''a@x.io'', - (3333 / 100))]"
  using debtor_view_sign by simp

text \<open>
  Claim C2 says the balance the payer's view holds for a participant is the negation of
  the balance that participant's view holds for the payer. In the store with the one
  dinner expense, no group and no payment, both views hold \<open>+33.33\<close>.
\<close>

theorem net_balance_not_antisymmetric:
  "map_sum id (\<lambda>v. dict_get (net_balances v) ''b@x.io'' 0)
      (get_user_expenses_by_email dinner_store ''a@x.io'') = Inr (3333 / 100) \<and>
   map_sum id (\<lambda>v. dict_get (net_balances v) ''a@x.io'' 0)
      (get_user_expenses_by_email dinner_store ''b@x.io'') = Inr (3333 / 100)"
  by code_simp

theorem net_balance_not_antisymmetric_witness:
  "map_sum id (\<lambda>v. dict_get (net_balances v) ''b@x.io'' 0)
      (get_user_expenses_by_email dinner_store ''a@x.io'') \<noteq>
   map_sum id (\<lambda>v. - dict_get (net_balances v) ''a@x.io'' 0)
      (get_user_expenses_by_email dinner_store ''b@x.io'')"
proof -
  obtain va where va: "get_user_expenses_by_email dinner_store ''a@x.io'' = Inr va"
    and "dict_get (net_balances va) ''b@x.io'' 0 = 3333 / 100"
    using net_balance_not_antisymmetric
    by (cases "get_user_expenses_by_email dinner_store ''a@x.io''") auto
  moreover obtain vb where vb: "get_user_expenses_by_email dinner_store ''b@x.io'' = Inr vb"
    and "dict_get (net_balances vb) ''a@x.io'' 0 = 3333 / 100"
    using net_balance_not_antisymmetric
    by (cases "get_user_expenses_by_email dinner_store ''b@x.io''") auto
  ultimately show ?thesis by simp
qed

subsection \<open>The aggregation never fails, and never lists the viewer\<close>
















subsection \<open>The contribution of a payment\<close>

lemma group_name_of_payments [simp]:
  "group_name_of (s\<lparr>payments := ps\<rparr>) i = group_name_of s i"
  by (simp add: group_name_of_def find_group_def)

lemma process_expense_payments [simp]:
  "process_expense (s\<lparr>payments := ps\<rparr>) email v d = process_expense s email v d"
  unfolding process_expense_def group_name_of_payments by (rule refl)

lemma process_expenses_payments [simp]:
  "process_expenses (s\<lparr>payments := ps\<rparr>) email v ds = process_expenses s email v ds"
  by (induction ds arbitrary: v) (simp_all cong: sum.case_cong)

lemma process_payment_payments [simp]:
  "process_payment (s\<lparr>payments := ps\<rparr>) email v p = process_payment s email v p"
  unfolding process_payment_def group_name_of_payments by (rule refl)

lemma expenses_of_payments [simp]:
  "expenses_of (s\<lparr>payments := ps\<rparr>) email = expenses_of s email"
  by (simp add: expenses_of_def)







subsection \<open>The repair sweep\<close>

lemma update_one_distinct:
  "distinct (map exp_id es) \<Longrightarrow>
   update_one es i f = map (\<lambda>z. if exp_id z = i then f z else z) es"
proof (induction es)
  case Nil
  then show ?case by simp
next
  case (Cons d es)
  show ?case
  proof (cases "exp_id d = i")
    case True
    then have "\<forall>z \<in> set es. exp_id z \<noteq> i" using Cons.prems by (auto simp: image_iff)
    then have "map (\<lambda>z. if exp_id z = i then f z else z) es = es"
      by (simp add: map_idI)
    with True show ?thesis by simp
  next
    case False
    with Cons show ?thesis by simp
  qed
qed

lemma fix_loop_nothing_broken:
  "\<forall>d \<in> set ds. \<not> splits_broken d \<Longrightarrow> fix_expenses_loop ds s n = (Inr n, s)"
  by (induction ds arbitrary: s n) simp_all

lemma fix_loop_repairs:
  assumes "distinct (map exp_id (expenses s))"
      and "distinct (map exp_id ds)"
      and "set ds \<subseteq> set (expenses s)"
      and "\<forall>d \<in> set ds. exp_participants d \<noteq> []"
      and "\<forall>x \<in> set (expenses s). exp_split_method x = Some ''custom'' \<longrightarrow> \<not> splits_broken x \<or> x \<in> set ds"
  shows "\<exists>n' s'. fix_expenses_loop ds s n = (Inr n', s') \<and>
           (\<forall>x \<in> set (expenses s'). exp_split_method x = Some ''custom'' \<longrightarrow> \<not> splits_broken x)"
  using assms
proof (induction ds arbitrary: s n)
  case Nil
  then show ?case by simp
next
  case (Cons d ds)
  show ?case
  proof (cases "splits_broken d")
    case False
    have "\<forall>x \<in> set (expenses s). exp_split_method x = Some ''custom'' \<longrightarrow> \<not> splits_broken x \<or> x \<in> set ds"
      using Cons.prems(5) False by auto
    with Cons.prems have "\<exists>n' s'. fix_expenses_loop ds s n = (Inr n', s') \<and>
           (\<forall>x \<in> set (expenses s'). exp_split_method x = Some ''custom'' \<longrightarrow> \<not> splits_broken x)"
      by (intro Cons.IH) auto
    with False show ?thesis by simp
  next
    case True
    have ne: "exp_participants d \<noteq> []" using Cons.prems(4) by simp
    define share where "share = dict_from_keys (exp_participants d)
        (py_round (exp_amount d / of_nat (length (exp_participants d))) 2)"
    define f where "f = (\<lambda>x::expense_doc. x\<lparr>exp_splits := Some share, exp_split_method := Some ''equal''\<rparr>)"
    define s1 where "s1 = s\<lparr>expenses := update_one (expenses s) (exp_id d) f\<rparr>"
    have eq: "equal_split (exp_amount d) (exp_participants d) = Inr share"
      using ne by (simp add: equal_split_def share_def)
    have step: "fix_expenses_loop (d # ds) s n = fix_expenses_loop ds s1 (n + 1)"
      using True eq by (simp add: s1_def f_def)
    have es1: "expenses s1 = map (\<lambda>z. if exp_id z = exp_id d then f z else z) (expenses s)"
      using Cons.prems(1) by (simp add: s1_def update_one_distinct)
    have ids: "map exp_id (expenses s1) = map exp_id (expenses s)"
      by (simp add: es1 f_def comp_def cong: map_cong)
    have 1: "distinct (map exp_id (expenses s1))" using Cons.prems(1) ids by simp
    have 2: "distinct (map exp_id ds)" using Cons.prems(2) by simp
    have other: "exp_id y \<noteq> exp_id d" if "y \<in> set ds" for y
      using Cons.prems(2) that by (auto simp: image_iff)
    have 3: "set ds \<subseteq> set (expenses s1)"
    proof
      fix y assume y: "y \<in> set ds"
      then have "y \<in> set (expenses s)" using Cons.prems(3) by auto
      moreover have "(if exp_id y = exp_id d then f y else y) = y" using other[OF y] by simp
      ultimately show "y \<in> set (expenses s1)" unfolding es1 set_map by force
    qed
    have 4: "\<forall>d \<in> set ds. exp_participants d \<noteq> []" using Cons.prems(4) by simp
    have 5: "\<forall>x \<in> set (expenses s1). exp_split_method x = Some ''custom'' \<longrightarrow> \<not> splits_broken x \<or> x \<in> set ds"
    proof (intro ballI impI)
      fix x assume x: "x \<in> set (expenses s1)" and c: "exp_split_method x = Some ''custom''"
      from x obtain z where z: "z \<in> set (expenses s)"
        and xz: "x = (if exp_id z = exp_id d then f z else z)"
        unfolding es1 by auto
      have nz: "exp_id z \<noteq> exp_id d"
      proof
        assume "exp_id z = exp_id d"
        then have "x = f z" using xz by simp
        then show False using c by (simp add: f_def)
      qed
      then have "x = z" using xz by simp
      then have "x \<in> set (expenses s)" "x \<noteq> d" using z nz by auto
      then show "\<not> splits_broken x \<or> x \<in> set ds" using Cons.prems(5) c by auto
    qed
    from Cons.IH[OF 1 2 3 4 5, of "n + 1"] step show ?thesis by simp
  qed
qed

text \<open>
  Claim C7. Let the identifiers of the stored expenses be pairwise different (the store
  keeps \<^verbatim>\<open>_id\<close> unique) and let every stored expense with method \<^verbatim>\<open>custom\<close> have a
  non-empty participant list. Then \<^const>\<open>fix_expenses\<close> completes, and run again on the
  store it leaves, it rewrites 0 records and leaves the store unchanged.
\<close>

theorem fix_expenses_idempotent:
  assumes "distinct (map exp_id (expenses s))"
      and "\<forall>d \<in> set (expenses s). exp_split_method d = Some ''custom'' \<longrightarrow> exp_participants d \<noteq> []"
  shows "\<exists>n s'. fix_expenses s = (Inr n, s') \<and> fix_expenses s' = (Inr 0, s')"
proof -
  let ?ds = "filter (\<lambda>d. exp_split_method d = Some ''custom'') (expenses s)"
  have "distinct (map exp_id ?ds)" using assms(1) by (rule distinct_map_filter)
  moreover have "set ?ds \<subseteq> set (expenses s)" by auto
  moreover have "\<forall>d \<in> set ?ds. exp_participants d \<noteq> []" using assms(2) by auto
  moreover have "\<forall>x \<in> set (expenses s). exp_split_method x = Some ''custom'' \<longrightarrow> \<not> splits_broken x \<or> x \<in> set ?ds"
    by auto
  ultimately obtain n s' where run: "fix_expenses_loop ?ds s 0 = (Inr n, s')"
    and ok: "\<forall>x \<in> set (expenses s'). exp_split_method x = Some ''custom'' \<longrightarrow> \<not> splits_broken x"
    using fix_loop_repairs[OF assms(1), of ?ds 0] by blast
  have "fix_expenses s' = (Inr 0, s')"
    unfolding fix_expenses_def using ok by (intro fix_loop_nothing_broken) auto
  with run show ?thesis by (auto simp: fix_expenses_def)
qed

theorem fix_expenses_idempotent_witness:
  "fix_expenses legacy_store = (Inr 1, repaired_store) \<and>
   fix_expenses repaired_store = (Inr 0, repaired_store)"
proof -
  have d: "distinct (map exp_id (expenses legacy_store))"
    by (simp add: legacy_store_def legacy_doc_def three_way_doc_def)
  have p: "\<forall>d \<in> set (expenses legacy_store).
            exp_split_method d = Some ''custom'' \<longrightarrow> exp_participants d \<noteq> []"
    by (simp add: legacy_store_def legacy_doc_def three_way_doc_def)
  have run: "fix_expenses legacy_store = (Inr 1, repaired_store)"
    by code_simp
  from fix_expenses_idempotent[OF d p] obtain n s' where
    "fix_expenses legacy_store = (Inr n, s')" "fix_expenses s' = (Inr 0, s')" by blast
  with run show ?thesis by simp
qed

subsection \<open>Write-time validation of a custom split\<close>

lemma find_expense_inserted:
  "find (\<lambda>d. exp_id d = i) (es @ [d\<lparr>exp_id := i\<rparr>]) \<noteq> None"
proof -
  have "\<exists>x \<in> set (es @ [d\<lparr>exp_id := i\<rparr>]). exp_id x = i" by simp
  then show ?thesis by (simp only: find_None_iff) blast
qed





subsection \<open>The batch endpoint is not atomic\<close>

lemma insert_expense_Some:
  "insert_expense s d = (s', Some i) \<Longrightarrow> expenses s' = expenses s @ [d\<lparr>exp_id := i\<rparr>]"
  by (auto simp: insert_expense_def Let_def split: list.splits bool.splits)

lemma insert_expense_None:
  "insert_expense s d = (s', None) \<Longrightarrow> expenses s' = expenses s"
  by (auto simp: insert_expense_def Let_def split: list.splits bool.splits)

lemma process_group_expense_failure:
  assumes "process_group_expense now cur gid g s e = (Inl err, s')"
  shows "expenses s' = expenses s"
proof (cases "calculate_split e")
  case (Inl x)
  with assms show ?thesis
    by (auto simp: process_group_expense_def Let_def split: if_splits sum.splits)
next
  case (Inr splits)
  let ?d = "expense_document e now (validate_users s (participants e) (paid_by e)) splits (Some gid)"
  obtain s1 res where ins: "insert_expense s ?d = (s1, res)" by (cases "insert_expense s ?d")
  show ?thesis
  proof (cases res)
    case None
    with ins have "expenses s1 = expenses s" by (simp add: insert_expense_None)
    with assms Inr ins None show ?thesis
      by (auto simp: process_group_expense_def Let_def split: if_splits sum.splits)
  next
    case (Some i)
    with ins have "expenses s1 = expenses s @ [?d\<lparr>exp_id := i\<rparr>]" by (simp add: insert_expense_Some)
    then have "find_expense s1 i \<noteq> None"
      by (simp add: find_expense_def find_expense_inserted)
    with assms Inr ins Some show ?thesis
      by (auto simp: process_group_expense_def Let_def split: if_splits sum.splits)
  qed
qed

lemma process_group_expense_success:
  assumes "process_group_expense now cur gid g s e = (Inr r, s')"
  shows "\<exists>d. expenses s' = expenses s @ [d] \<and> holds_expense gid e d"
proof -
  from assms obtain splits where cs: "calculate_split e = Inr splits"
    by (cases "calculate_split e")
       (auto simp: process_group_expense_def Let_def split: if_splits sum.splits)
  let ?d = "expense_document e now (validate_users s (participants e) (paid_by e)) splits (Some gid)"
  obtain s1 res where ins: "insert_expense s ?d = (s1, res)" by (cases "insert_expense s ?d")
  from assms cs ins obtain i where i: "res = Some i" and s1: "s' = s1"
    by (cases res)
       (auto simp: process_group_expense_def Let_def split: if_splits sum.splits option.splits)
  have "expenses s' = expenses s @ [?d\<lparr>exp_id := i\<rparr>]"
    using ins i s1 by (simp add: insert_expense_Some)
  moreover have "holds_expense gid e (?d\<lparr>exp_id := i\<rparr>)"
    by (simp add: holds_expense_def expense_document_def cs)
  ultimately show ?thesis by blast
qed

lemma group_expense_loop_append:
  "group_expense_loop now cur gid g s results (pre @ post) =
     (case group_expense_loop now cur gid g s results pre of
        (Inl err, s1) \<Rightarrow> (Inl err, s1)
      | (Inr r, s1) \<Rightarrow> group_expense_loop now cur gid g s1 (details r) post)"
proof (induction pre arbitrary: s results)
  case Nil
  then show ?case by simp
next
  case (Cons e pre)
  show ?case
  proof (cases "process_group_expense now cur gid g s e")
    case (Pair res s')
    then show ?thesis using Cons.IH by (cases res) simp_all
  qed
qed

lemma group_expense_loop_success:
  "group_expense_loop now cur gid g s results es = (Inr r, s') \<Longrightarrow>
   \<exists>docs. expenses s' = expenses s @ docs \<and> list_all2 (holds_expense gid) es docs"
proof (induction es arbitrary: s results)
  case Nil
  then show ?case by simp
next
  case (Cons e es)
  obtain res s1 where p: "process_group_expense now cur gid g s e = (res, s1)"
    by (cases "process_group_expense now cur gid g s e")
  show ?case
  proof (cases res)
    case (Inl err)
    with p Cons.prems show ?thesis by simp
  next
    case (Inr r1)
    with p Cons.prems have "group_expense_loop now cur gid g s1 (results @ [r1]) es = (Inr r, s')"
      by simp
    from Cons.IH[OF this] obtain docs where
      docs: "expenses s' = expenses s1 @ docs" "list_all2 (holds_expense gid) es docs" by blast
    from process_group_expense_success p Inr obtain d where
      d: "expenses s1 = expenses s @ [d]" "holds_expense gid e d" by blast
    have "expenses s' = expenses s @ (d # docs)" using docs d by simp
    moreover have "list_all2 (holds_expense gid) (e # es) (d # docs)" using docs d by simp
    ultimately show ?thesis by blast
  qed
qed

text \<open>
  Claim C8. The batch endpoint processes the sub-expenses in order. If the batch of the
  first \<open>k\<close> sub-expenses (\<open>pre\<close>) succeeds and the batch of the first \<open>k + 1\<close>
  fails at sub-expense \<open>k\<close> (\<open>e\<close>) with an error, whether from validation or from the
  store, then the whole batch fails with that error, whatever follows \<open>e\<close>; the store it
  leaves holds, after the expenses it had before, exactly one document for each of the
  first \<open>k\<close> sub-expenses, in order, and nothing for \<open>e\<close> or a later sub-expense.
\<close>

theorem batch_not_atomic:
  assumes pre_ok: "add_group_expense now s cur \<lparr>ge_group_id = gid, ge_expenses = pre\<rparr> = (Inr r, s1)"
      and k_fails: "add_group_expense now s cur \<lparr>ge_group_id = gid, ge_expenses = pre @ [e]\<rparr> = (Inl err, s2)"
  shows "add_group_expense now s cur \<lparr>ge_group_id = gid, ge_expenses = pre @ e # post\<rparr> = (Inl err, s2) \<and>
         expenses s2 = expenses s1 \<and>
         (\<exists>docs. expenses s1 = expenses s @ docs \<and> list_all2 (holds_expense gid) pre docs)"
proof -
  obtain g where g: "validate_group_members s gid [] cur = Inr g"
    using pre_ok by (auto simp: add_group_expense_def split: sum.splits)
  have loop_pre: "group_expense_loop now cur gid g s [] pre = (Inr r, s1)"
    using pre_ok g by (simp add: add_group_expense_def)
  have "group_expense_loop now cur gid g s [] (pre @ [e]) = (Inl err, s2)"
    using k_fails g by (simp add: add_group_expense_def)
  then have one: "group_expense_loop now cur gid g s1 (details r) [e] = (Inl err, s2)"
    by (simp add: group_expense_loop_append loop_pre del: group_expense_loop.simps)
  have step: "process_group_expense now cur gid g s1 e = (Inl err, s2)"
  proof (cases "process_group_expense now cur gid g s1 e")
    case (Pair res s')
    then show ?thesis using one by (cases res) simp_all
  qed
  have "group_expense_loop now cur gid g s [] (pre @ e # post) = (Inl err, s2)"
    by (simp add: group_expense_loop_append loop_pre step)
  then have whole: "add_group_expense now s cur \<lparr>ge_group_id = gid, ge_expenses = pre @ e # post\<rparr>
      = (Inl err, s2)"
    using g by (simp add: add_group_expense_def)
  have same: "expenses s2 = expenses s1"
    using process_group_expense_failure[OF step] .
  from group_expense_loop_success[OF loop_pre] whole same show ?thesis by blast
qed

theorem batch_not_atomic_witness:
  "(\<exists>s2 d. add_group_expense 0 trip_store ''a@x.io''
              \<lparr>ge_group_id = trip_gid, ge_expenses = [picnic, outsider_paid, three_way]\<rparr>
            = (Inl (HTTPException 400 ''paid_by must be one of participants''), s2) \<and>
          expenses s2 = expenses trip_store @ [d] \<and> exp_description d = ''picnic'') \<and>
   (\<exists>s2 d. add_group_expense 0 flaky_trip_store ''a@x.io''
              \<lparr>ge_group_id = trip_gid, ge_expenses = [picnic, three_way, three_way]\<rparr>
            = (Inl (HTTPException 500 ''Database insertion failed''), s2) \<and>
          expenses s2 = expenses flaky_trip_store @ [d] \<and> exp_description d = ''picnic'')"
proof -
  have by_validation: "\<exists>s2 d. add_group_expense 0 st ''a@x.io''
              \<lparr>ge_group_id = trip_gid, ge_expenses = [picnic, e, three_way]\<rparr> = (Inl err, s2) \<and>
          expenses s2 = expenses st @ [d] \<and> exp_description d = ''picnic''"
    if ok: "\<not> isl (fst (add_group_expense 0 st ''a@x.io''
                      \<lparr>ge_group_id = trip_gid, ge_expenses = [picnic]\<rparr>))"
      and bad: "fst (add_group_expense 0 st ''a@x.io''
               \<lparr>ge_group_id = trip_gid, ge_expenses = [picnic] @ [e]\<rparr>) = Inl err"
    for st e err
  proof -
    from ok obtain r s1 where pre_ok:
      "add_group_expense 0 st ''a@x.io''
         \<lparr>ge_group_id = trip_gid, ge_expenses = [picnic]\<rparr> = (Inr r, s1)"
      by (metis isl_def prod.collapse sum.exhaust)
    from bad obtain s2 where k_fails:
      "add_group_expense 0 st ''a@x.io''
         \<lparr>ge_group_id = trip_gid, ge_expenses = [picnic] @ [e]\<rparr> = (Inl err, s2)"
      by (metis prod.collapse)
    from batch_not_atomic[OF pre_ok k_fails, of "[three_way]"] obtain docs where
      whole: "add_group_expense 0 st ''a@x.io''
                \<lparr>ge_group_id = trip_gid, ge_expenses = [picnic] @ e # [three_way]\<rparr> = (Inl err, s2)"
      and same: "expenses s2 = expenses s1"
      and docs: "expenses s1 = expenses st @ docs" "list_all2 (holds_expense trip_gid) [picnic] docs"
      by blast
    from docs(2) obtain d where d: "docs = [d]" "holds_expense trip_gid picnic d"
      by (auto simp: list_all2_Cons1)
    have "exp_description d = ''picnic''"
      using d(2) by (simp add: holds_expense_def picnic_def)
    moreover have "expenses s2 = expenses st @ [d]" using same docs(1) d(1) by simp
    ultimately show ?thesis using whole by auto
  qed
  have 1: "\<not> isl (fst (add_group_expense 0 trip_store ''a@x.io''
                      \<lparr>ge_group_id = trip_gid, ge_expenses = [picnic]\<rparr>))"
    by code_simp
  have 2: "fst (add_group_expense 0 trip_store ''a@x.io''
               \<lparr>ge_group_id = trip_gid, ge_expenses = [picnic] @ [outsider_paid]\<rparr>)
          = Inl (HTTPException 400 ''paid_by must be one of participants'')"
    by code_simp
  have 3: "\<not> isl (fst (add_group_expense 0 flaky_trip_store ''a@x.io''
                      \<lparr>ge_group_id = trip_gid, ge_expenses = [picnic]\<rparr>))"
    by code_simp
  have 4: "fst (add_group_expense 0 flaky_trip_store ''a@x.io''
               \<lparr>ge_group_id = trip_gid, ge_expenses = [picnic] @ [three_way]\<rparr>)
          = Inl (HTTPException 500 ''Database insertion failed'')"
    by code_simp
  from by_validation[OF 1 2] by_validation[OF 3 4] show ?thesis by blast
qed

end
